theory Spec2Isabelle
  imports Complex_Main "HOL-Library.AList"
begin

section \<open>terminalnode: node sizing, layout, selection and edge rasterisation\<close>

text \<open>
  The development embeds the mind-map canvas engine of the repository
  (Go sources: the node and model files, \<^verbatim>\<open>camera.go\<close>, \<^verbatim>\<open>persistence.go\<close>,
  \<^verbatim>\<open>update.go\<close>, \<^verbatim>\<open>renderer.go\<close>), in the version that wraps node text.

  Modelling conventions.
  \<^item> A Go \<^verbatim>\<open>string\<close> is a byte sequence: \<^typ>\<open>string\<close>, and \<^verbatim>\<open>len\<close> is \<^const>\<open>length\<close>.
  \<^item> A \<^verbatim>\<open>float64\<close> coordinate is a \<^typ>\<open>real\<close>. The layout and selection code only
    adds and compares coordinates, which the program builds from integers and halves,
    where \<^verbatim>\<open>float64\<close> arithmetic is exact. The camera transforms and the curve
    arithmetic of the renderer, whose results depend on IEEE rounding, are not embedded.
  \<^item> A Go \<^verbatim>\<open>int\<close> that holds a size or a screen coordinate is an \<^typ>\<open>int\<close>; the two
    counters \<^verbatim>\<open>NextID\<close> and \<^verbatim>\<open>NextColorIndex\<close>, which start at 1 and 0 and are only
    ever incremented, are \<^typ>\<open>nat\<close>.
  \<^item> \<^verbatim>\<open>map[string]*Node\<close> is an association list of non-nil nodes; a \<^verbatim>\<open>range\<close> loop
    visits the entries in list order, which stands for the unspecified order Go picks.
  \<^item> A run-time panic is a value of type \<open>panic\<close>.
\<close>

subsection \<open>Nodes and node sizing\<close>

type_synonym float64 = real

record Node =
  ID :: string
  Text :: string
  X :: float64
  Y :: float64
  Width :: int
  Height :: int
  ParentID :: string
  Color :: string
  Links :: "string list"

record Edge =
  FromID :: string
  ToID :: string

text \<open>\<^verbatim>\<open>strings.Split(text, "\n")\<close>: the pieces between line feeds, never an empty list.\<close>

fun Split_newline :: "string \<Rightarrow> string list" where
  "Split_newline [] = [[]]"
| "Split_newline (c # cs) =
     (if c = CHR 0x0A then [] # Split_newline cs
      else (case Split_newline cs of
              [] \<Rightarrow> [[c]]
            | l # ls \<Rightarrow> (c # l) # ls))"

text \<open>
  \<^verbatim>\<open>strings.Fields\<close>: the maximal runs of non-space bytes. The white space is that of
  Go's ASCII table (tab, line feed, vertical tab, form feed, carriage return, space),
  which is what \<^verbatim>\<open>strings.Fields\<close> uses on text without multi-byte Unicode spaces.
\<close>

definition isSpace :: "char \<Rightarrow> bool" where
  "isSpace c \<longleftrightarrow> c = CHR 0x09 \<or> c = CHR 0x0A \<or> c = CHR 0x0B \<or> c = CHR 0x0C
     \<or> c = CHR 0x0D \<or> c = CHR 0x20"

fun Fields_from :: "string \<Rightarrow> string \<Rightarrow> string list" where
  "Fields_from cur [] = (if cur = [] then [] else [cur])"
| "Fields_from cur (c # cs) =
     (if isSpace c then (if cur = [] then Fields_from [] cs else cur # Fields_from [] cs)
      else Fields_from (cur @ [c]) cs)"

definition Fields :: "string \<Rightarrow> string list" where
  "Fields s = Fields_from [] s"

text \<open>
  The inner loop of \<^verbatim>\<open>wrapText\<close> that cuts a long word:
  \<^verbatim>\<open>for len(word) > maxWidth { wrappedLines = append(wrappedLines, word[:maxWidth]); word = word[maxWidth:] }\<close>.
  It returns the extended line list and the rest of the word. \<^verbatim>\<open>wrapText\<close> has raised
  \<^verbatim>\<open>maxWidth\<close> to at least 5 before the loop is reached; the test \<open>0 < maxWidth\<close> only
  makes the recursion total for the widths that never occur.
\<close>

function breakWord :: "int \<Rightarrow> string list \<Rightarrow> string \<Rightarrow> string list \<times> string" where
  "breakWord maxWidth wrappedLines word =
     (if 0 < maxWidth \<and> int (length word) > maxWidth
      then breakWord maxWidth (wrappedLines @ [take (nat maxWidth) word]) (drop (nat maxWidth) word)
      else (wrappedLines, word))"
  by pat_completeness auto
termination
  by (relation "measure (\<lambda>(maxWidth, wrappedLines, word). length word)") auto

text \<open>One turn of \<^verbatim>\<open>for _, word := range words\<close>, on the pair (wrappedLines, currentLine).\<close>

definition wrapWord :: "int \<Rightarrow> string list \<times> string \<Rightarrow> string \<Rightarrow> string list \<times> string" where
  "wrapWord maxWidth st word =
     (let wrappedLines = fst st; currentLine = snd st in
      if length currentLine > 0 \<and> int (length currentLine) + 1 + int (length word) > maxWidth
      then (if int (length word) > maxWidth
            then (let wrappedLines1 = (if length currentLine > 0
                                       then wrappedLines @ [currentLine] else wrappedLines)
                  in breakWord maxWidth wrappedLines1 word)
            else (wrappedLines @ [currentLine], word))
      else (if length currentLine > 0
            then (wrappedLines, currentLine @ '' '' @ word)
            else (wrappedLines, word)))"

text \<open>One turn of \<^verbatim>\<open>for _, paragraph := range paragraphs\<close>.\<close>

definition wrapParagraph :: "int \<Rightarrow> string list \<Rightarrow> string \<Rightarrow> string list" where
  "wrapParagraph maxWidth wrappedLines paragraph =
     (if length paragraph = 0 then wrappedLines @ [[]]
      else (let words = Fields paragraph in
            if length words = 0 then wrappedLines @ [[]]
            else (let st = foldl (wrapWord maxWidth) (wrappedLines, []) words in
                  if length (snd st) > 0 then fst st @ [snd st] else fst st)))"

definition wrapText :: "string \<Rightarrow> int \<Rightarrow> string list" where
  "wrapText text maxWidth0 =
     (let maxWidth = (if maxWidth0 < 5 then 5 else maxWidth0);
          paragraphs = Split_newline text;
          wrappedLines = foldl (wrapParagraph maxWidth) [] paragraphs
      in if length wrappedLines = 0 then [[]] else wrappedLines)"

definition maxTextWidth :: int where
  "maxTextWidth = 22"

text \<open>\<^verbatim>\<open>calculateNodeSize\<close> returns (width, height).\<close>

definition calculateNodeSize :: "string \<Rightarrow> int \<times> int" where
  "calculateNodeSize text =
     (let lines = wrapText text maxTextWidth;
          height = int (length lines) + 2;
          width = foldl (\<lambda>width line. if int (length line) > width then int (length line) else width) 0 lines;
          width = width + 4;
          width = (if width < 10 then 10 else width)
      in (width, height))"

definition NewNode :: "string \<Rightarrow> string \<Rightarrow> float64 \<Rightarrow> float64 \<Rightarrow> Node" where
  "NewNode nid text x y =
     (let (width, height) = calculateNodeSize text in
      \<lparr>ID = nid, Text = text, X = x, Y = y, Width = width, Height = height,
       ParentID = [], Color = [], Links = []\<rparr>)"

definition GetCenter :: "Node \<Rightarrow> float64 \<times> float64" where
  "GetCenter n = (X n + real_of_int (Width n) / 2, Y n + real_of_int (Height n) / 2)"

definition UpdateSize :: "Node \<Rightarrow> Node" where
  "UpdateSize n = (let (w, h) = calculateNodeSize (Text n) in n\<lparr>Width := w, Height := h\<rparr>)"

subsection \<open>Camera (camera.go)\<close>

record Camera =
  CamX :: float64
  CamY :: float64
  Zoom :: float64
  TargetX :: float64
  TargetY :: float64
  TargetZoom :: float64

definition NewCamera :: Camera where
  "NewCamera = \<lparr>CamX = 0, CamY = 0, Zoom = 1, TargetX = 0, TargetY = 0, TargetZoom = 1\<rparr>"

definition GetViewportCenter :: "Camera \<Rightarrow> float64 \<times> float64" where
  "GetViewportCenter c = (CamX c, CamY c)"

subsection \<open>The document model\<close>

datatype Mode = ModeNormal | ModeEdit | ModeLink

datatype panic = IntegerDivideByZero | IndexOutOfRange

text \<open>
  The model without its three lipgloss styles. The viewport fields \<^verbatim>\<open>Width\<close> and
  \<^verbatim>\<open>Height\<close> of the source are \<open>ViewWidth\<close> and \<open>ViewHeight\<close> here, the node fields
  having taken the names.
\<close>

record Model =
  Nodes :: "(string \<times> Node) list"
  Edges :: "Edge list"
  Camera :: Camera
  Selected :: string
  Mode :: Mode
  EditBuffer :: string
  IsCreatingNode :: bool
  IsCreatingChild :: bool
  ViewWidth :: int
  ViewHeight :: int
  NextID :: nat
  StatusMsg :: string
  LinkSourceID :: string
  ColorPalette :: "string list"
  NextColorIndex :: nat

text \<open>\<^verbatim>\<open>fmt.Sprintf("%d", n)\<close> for a counter: the decimal digits of \<open>n\<close>.\<close>

fun Sprintf_d :: "nat \<Rightarrow> string" where
  "Sprintf_d n =
     (if n < 10 then [char_of (48 + n)]
      else Sprintf_d (n div 10) @ [char_of (48 + n mod 10)])"

declare Sprintf_d.simps [simp del]

definition NewModel :: Model where
  "NewModel =
     \<lparr>Nodes = [(''0'', NewNode ''0'' ''Root Idea'' 0 0)],
      Edges = [],
      Camera = NewCamera,
      Selected = ''0'',
      Mode = ModeNormal,
      EditBuffer = [],
      IsCreatingNode = False,
      IsCreatingChild = False,
      ViewWidth = 80,
      ViewHeight = 24,
      NextID = 1,
      StatusMsg = [],
      LinkSourceID = [],
      ColorPalette = [''#FF6B6B'', ''#4ECDC4'', ''#45B7D1'', ''#FFA07A'',
                      ''#98D8C8'', ''#F7DC6F'', ''#BB8FCE'', ''#85C1E2''],
      NextColorIndex = 0\<rparr>"

definition GetSelectedNode :: "Model \<Rightarrow> Node option" where
  "GetSelectedNode m = (if Selected m \<noteq> [] then map_of (Nodes m) (Selected m) else None)"

definition GetChildrenOf :: "Model \<Rightarrow> string \<Rightarrow> Node list" where
  "GetChildrenOf m parentID = filter (\<lambda>node. ParentID node = parentID) (map snd (Nodes m))"

definition pushDownNodesBelow :: "float64 \<Rightarrow> float64 \<Rightarrow> Model \<Rightarrow> Model" where
  "pushDownNodesBelow thresholdY amount m =
     m\<lparr>Nodes := map (\<lambda>(k, node). (k, if Y node \<ge> thresholdY
                                        then node\<lparr>Y := Y node + amount\<rparr> else node))
                     (Nodes m)\<rparr>"

text \<open>The arrow of the status message is the byte sequence the source file holds.\<close>

definition AddEdge :: "string \<Rightarrow> string \<Rightarrow> Model \<Rightarrow> Model" where
  "AddEdge fromID toID m =
     (if list_ex (\<lambda>edge. FromID edge = fromID \<and> ToID edge = toID) (Edges m)
      then m\<lparr>StatusMsg := ''Edge already exists''\<rparr>
      else (let m1 = m\<lparr>Edges := Edges m @ [\<lparr>FromID = fromID, ToID = toID\<rparr>]\<rparr>;
                m2 = (case map_of (Nodes m1) fromID of
                        Some node \<Rightarrow>
                          m1\<lparr>Nodes := AList.update fromID (node\<lparr>Links := Links node @ [toID]\<rparr>)
                                        (Nodes m1)\<rparr>
                      | None \<Rightarrow> m1)
            in m2\<lparr>StatusMsg := ''Created link '' @ fromID
                    @ [CHR 0x20, CHR 0xC3, CHR 0xA2, CHR 0xE2, CHR 0x80, CHR 0xA0,
                       CHR 0xE2, CHR 0x80, CHR 0x99, CHR 0x20] @ toID\<rparr>))"

text \<open>
  The body of \<^verbatim>\<open>for _, child := range existingChildren\<close> in \<^verbatim>\<open>AddChildNode\<close>, on the
  pair (lowestY, lowestHeight).
\<close>

definition lowerChild :: "float64 \<times> int \<Rightarrow> Node \<Rightarrow> float64 \<times> int" where
  "lowerChild st child =
     (let lowestY = fst st; lowestHeight = snd st;
          childBottom = Y child + real_of_int (Height child)
      in if childBottom > lowestY + real_of_int lowestHeight
         then (Y child, Height child) else (lowestY, lowestHeight))"

text \<open>
  The positioning block of \<^verbatim>\<open>AddChildNode\<close>: it yields x, y, parentID and the model
  after the push-down.
\<close>

definition childPosition :: "Model \<Rightarrow> float64 \<times> float64 \<times> string \<times> Model" where
  "childPosition m =
     (case GetSelectedNode m of
        Some selectedNode \<Rightarrow>
          (let spacing = 5.0;
               verticalSpacing = 3.0;
               x = X selectedNode + real_of_int (Width selectedNode) + spacing;
               parentID = ID selectedNode;
               existingChildren = GetChildrenOf m (ID selectedNode)
           in if length existingChildren > 0
              then (let (lowestY, lowestHeight) =
                          foldl lowerChild (Y selectedNode, Height selectedNode) existingChildren;
                        y = lowestY + real_of_int lowestHeight + verticalSpacing;
                        newNodeHeight = 3;
                        spaceNeeded = real_of_int newNodeHeight + verticalSpacing
                    in (x, y, parentID, pushDownNodesBelow y spaceNeeded m))
              else (x, Y selectedNode, parentID, m))
      | None \<Rightarrow> (let (x, y) = GetViewportCenter (Camera m) in (x, y, [], m)))"

text \<open>
  \<^verbatim>\<open>node.Color = m.ColorPalette[m.NextColorIndex%len(m.ColorPalette)]; m.NextColorIndex++\<close>.
  The remainder by the length of an empty palette panics.
\<close>

definition nextPaletteColor :: "Node \<Rightarrow> Model \<Rightarrow> panic + Node \<times> Model" where
  "nextPaletteColor node m =
     (if length (ColorPalette m) = 0 then Inl IntegerDivideByZero
      else Inr (node\<lparr>Color := ColorPalette m ! (NextColorIndex m mod length (ColorPalette m))\<rparr>,
                m\<lparr>NextColorIndex := NextColorIndex m + 1\<rparr>))"

definition AddChildNode :: "string \<Rightarrow> Model \<Rightarrow> panic + Model" where
  "AddChildNode text m0 =
     (let nid = Sprintf_d (NextID m0);
          m1 = m0\<lparr>NextID := NextID m0 + 1\<rparr>;
          (x, y, parentID, m2) = childPosition m1;
          node = (NewNode nid text x y)\<lparr>ParentID := parentID\<rparr>;
          coloured =
            (if parentID = ''0'' then nextPaletteColor node m2
             else if parentID \<noteq> [] then
               (case map_of (Nodes m2) parentID of
                  Some parent \<Rightarrow> Inr (node\<lparr>Color := Color parent\<rparr>, m2)
                | None \<Rightarrow> Inr (node, m2))
             else Inr (node, m2))
      in case coloured of
           Inl p \<Rightarrow> Inl p
         | Inr (node, m3) \<Rightarrow>
             (let m4 = m3\<lparr>Nodes := AList.update nid node (Nodes m3)\<rparr>;
                  m5 = (if parentID \<noteq> [] then AddEdge parentID nid m4 else m4)
              in Inr (m5\<lparr>Selected := nid, StatusMsg := ''Created child node '' @ nid\<rparr>)))"

definition AddSiblingNode :: "string \<Rightarrow> Model \<Rightarrow> panic + Model" where
  "AddSiblingNode text m0 =
     (case GetSelectedNode m0 of
        None \<Rightarrow> AddChildNode text m0
      | Some selectedNode \<Rightarrow>
          if ID selectedNode = ''0'' then AddChildNode text m0
          else
            (let nid = Sprintf_d (NextID m0);
                 m1 = m0\<lparr>NextID := NextID m0 + 1\<rparr>;
                 verticalSpacing = 3.0;
                 x = X selectedNode;
                 newNodeHeight = 3;
                 y = Y selectedNode + real_of_int (Height selectedNode) + verticalSpacing;
                 spaceNeeded = real_of_int newNodeHeight + verticalSpacing;
                 m2 = pushDownNodesBelow y spaceNeeded m1;
                 node = (NewNode nid text x y)\<lparr>ParentID := ParentID selectedNode\<rparr>;
                 coloured =
                   (if ParentID selectedNode = ''0'' then nextPaletteColor node m2
                    else Inr (node\<lparr>Color := Color selectedNode\<rparr>, m2))
             in case coloured of
                  Inl p \<Rightarrow> Inl p
                | Inr (node, m3) \<Rightarrow>
                    (let m4 = m3\<lparr>Nodes := AList.update nid node (Nodes m3)\<rparr>;
                         m5 = (if ParentID selectedNode \<noteq> []
                               then AddEdge (ParentID selectedNode) nid m4 else m4)
                     in Inr (m5\<lparr>Selected := nid, StatusMsg := ''Created sibling node '' @ nid\<rparr>))))"

definition DeleteNode :: "string \<Rightarrow> Model \<Rightarrow> Model" where
  "DeleteNode nid m =
     (if nid = ''0'' then m\<lparr>StatusMsg := ''Cannot delete root node''\<rparr>
      else (let m1 = m\<lparr>Nodes := AList.delete nid (Nodes m)\<rparr>;
                m2 = m1\<lparr>Edges := filter (\<lambda>edge. FromID edge \<noteq> nid \<and> ToID edge \<noteq> nid) (Edges m1)\<rparr>;
                m3 = (if Selected m2 = nid
                      then (case Nodes m2 of
                              [] \<Rightarrow> m2\<lparr>Selected := []\<rparr>
                            | (nodeID, node) # rest \<Rightarrow> m2\<lparr>Selected := nodeID\<rparr>)
                      else m2)
            in m3\<lparr>StatusMsg := ''Deleted node '' @ nid\<rparr>))"

subsection \<open>Loading a document (persistence.go)\<close>

record MindMapData =
  data_Nodes :: "(string \<times> Node) list"
  data_Edges :: "Edge list"
  data_Camera :: Camera

type_synonym error = string

text \<open>
  The three library calls of \<^verbatim>\<open>LoadFromFile\<close> are parameters: \<open>ReadFile\<close> is
  \<^verbatim>\<open>os.ReadFile\<close>, \<open>Unmarshal\<close> is \<^verbatim>\<open>json.Unmarshal\<close> into a fresh \<^verbatim>\<open>MindMapData\<close>,
  and \<open>Sscanf_d\<close> is \<^verbatim>\<open>fmt.Sscanf(id, "%d", &numID)\<close>, \<open>None\<close> when it reports an error.
  On an error the model is left as it was.
\<close>

definition LoadFromFile ::
  "(string \<Rightarrow> error + string) \<Rightarrow> (string \<Rightarrow> error + MindMapData) \<Rightarrow> (string \<Rightarrow> int option)
     \<Rightarrow> string \<Rightarrow> Model \<Rightarrow> error + Model" where
  "LoadFromFile ReadFile Unmarshal Sscanf_d filename m =
     (case ReadFile filename of
        Inl err \<Rightarrow> Inl err
      | Inr jsonData \<Rightarrow>
          (case Unmarshal jsonData of
             Inl err \<Rightarrow> Inl err
           | Inr data \<Rightarrow>
               (let m1 = m\<lparr>Nodes := data_Nodes data, Edges := data_Edges data,
                           Camera := data_Camera data\<rparr>;
                    m2 = m1\<lparr>Camera := (Camera m1)\<lparr>TargetX := CamX (Camera m1),
                                                    TargetY := CamY (Camera m1),
                                                    TargetZoom := Zoom (Camera m1)\<rparr>\<rparr>;
                    m3 = (if Selected m2 = [] \<and> length (Nodes m2) > 0
                          then (case Nodes m2 of
                                  [] \<Rightarrow> m2
                                | (nid, node) # rest \<Rightarrow> m2\<lparr>Selected := nid\<rparr>)
                          else m2);
                    maxID = foldl (\<lambda>maxID (nid, node).
                                     case Sscanf_d nid of
                                       Some numID \<Rightarrow> if numID > maxID then numID else maxID
                                     | None \<Rightarrow> maxID)
                                  0 (Nodes m3)
                in Inr (m3\<lparr>NextID := nat (maxID + 1)\<rparr>))))"

subsection \<open>Directional selection (update.go)\<close>

definition absFloat :: "float64 \<Rightarrow> float64" where
  "absFloat x = (if x < 0 then - x else x)"

text \<open>
  The body of \<^verbatim>\<open>for _, node := range m.Nodes\<close> in \<^verbatim>\<open>selectNodeInDirection\<close>, on the
  pair (bestNode, bestScore).
\<close>

definition directionStep ::
  "float64 \<Rightarrow> float64 \<Rightarrow> string \<Rightarrow> float64 \<Rightarrow> float64 \<Rightarrow> Node option \<times> float64 \<Rightarrow> Node
     \<Rightarrow> Node option \<times> float64" where
  "directionStep dx dy selected currentX currentY st node =
     (if ID node = selected then st
      else (let (nodeX, nodeY) = GetCenter node;
                relX = nodeX - currentX;
                relY = nodeY - currentY;
                (inDirection, primaryDist, secondaryDist) =
                  (if dx \<noteq> 0
                   then (if (dx > 0 \<and> relX > 0) \<or> (dx < 0 \<and> relX < 0)
                         then (True, absFloat relX, absFloat relY) else (False, 0, 0))
                   else if dy \<noteq> 0
                   then (if (dy > 0 \<and> relY > 0) \<or> (dy < 0 \<and> relY < 0)
                         then (True, absFloat relY, absFloat relX) else (False, 0, 0))
                   else (False, 0, 0))
            in if \<not> inDirection then st
               else (let score = secondaryDist * 2.0 + primaryDist
                     in if snd st < 0 \<or> score < snd st then (Some node, score) else st)))"

definition selectNodeInDirection :: "float64 \<Rightarrow> float64 \<Rightarrow> Model \<Rightarrow> Model" where
  "selectNodeInDirection dx dy m =
     (case GetSelectedNode m of
        None \<Rightarrow> m
      | Some selectedNode \<Rightarrow>
          (let (currentX, currentY) = GetCenter selectedNode;
               (bestNode, bestScore) =
                  foldl (directionStep dx dy (Selected m) currentX currentY) (None, - 1)
                        (map snd (Nodes m))
           in case bestNode of
                Some best \<Rightarrow> m\<lparr>Selected := ID best, StatusMsg := []\<rparr>
              | None \<Rightarrow> m))"

subsection \<open>Edge rasterisation (renderer.go)\<close>

text \<open>A cell of the frame: a rune (its code point) and a colour.\<close>

record ColoredCell =
  CellChar :: int
  CellColor :: string

type_synonym Grid = "ColoredCell list list"

text \<open>The blank \<^verbatim>\<open>' '\<close>.\<close>

definition blank :: int where
  "blank = 0x20"










subsection \<open>Directional selection, as the specification words it\<close>









subsection \<open>User actions\<close>

text \<open>
  The actions of the edit and navigation handlers that the examples use: confirming a
  new child or a new sibling, and moving the selection to a node.
\<close>

datatype event = CreateChild string | CreateSibling string | Select string

fun step :: "event \<Rightarrow> Model \<Rightarrow> panic + Model" where
  "step (CreateChild text) m = AddChildNode text m"
| "step (CreateSibling text) m = AddSiblingNode text m"
| "step (Select nid) m = Inr (m\<lparr>Selected := nid\<rparr>)"

fun run :: "event list \<Rightarrow> Model \<Rightarrow> panic + Model" where
  "run [] m = Inr m"
| "run (e # es) m = (case step e m of Inl p \<Rightarrow> Inl p | Inr m' \<Rightarrow> run es m')"

subsection \<open>The node a creation stores\<close>

text \<open>
  A creation on the model \<open>m\<close> stores its node under the fresh identity
  \<^verbatim>\<open>fmt.Sprintf("%d", m.NextID)\<close>; \<open>createdNode m m'\<close> is that entry of the result \<open>m'\<close>.
\<close>

definition createdNode :: "Model \<Rightarrow> Model \<Rightarrow> Node option" where
  "createdNode m m' = map_of (Nodes m') (Sprintf_d (NextID m))"

subsection \<open>Example documents\<close>

text \<open>A text of two words that wraps into two lines, so that its node is 4 rows high.\<close>

definition two_line_text :: string where
  "two_line_text = ''aaaaaaaaaaaaaaaaaaaa bbbbbbbbbb''"

definition root_node :: "string list \<Rightarrow> Node" where
  "root_node links =
     \<lparr>ID = ''0'', Text = ''Root Idea'', X = 0, Y = 0, Width = 13, Height = 3,
      ParentID = [], Color = [], Links = links\<rparr>"

text \<open>The document after \<^verbatim>\<open>AddChildNode("a")\<close> on a new model.\<close>

definition doc_one_child :: Model where
  "doc_one_child = NewModel
     \<lparr>Nodes := [(''0'', root_node [''1'']),
                (''1'', \<lparr>ID = ''1'', Text = ''a'', X = 18, Y = 0, Width = 10, Height = 3,
                         ParentID = ''0'', Color = ''#FF6B6B'', Links = []\<rparr>)],
      Edges := [\<lparr>FromID = ''0'', ToID = ''1''\<rparr>],
      Selected := ''1'', NextID := 2, StatusMsg := ''Created child node 1'',
      NextColorIndex := 1\<rparr>"

definition blankGrid :: "nat \<Rightarrow> nat \<Rightarrow> Grid" where
  "blankGrid h w = replicate h (replicate w \<lparr>CellChar = blank, CellColor = []\<rparr>)"

text \<open>Nodes of 10 by 3 around a given centre, and the document of the example A, B, C.\<close>

definition node_at :: "string \<Rightarrow> float64 \<Rightarrow> float64 \<Rightarrow> Node" where
  "node_at nid cx cy =
     \<lparr>ID = nid, Text = nid, X = cx - 5, Y = cy - 3/2, Width = 10, Height = 3,
      ParentID = [], Color = [], Links = []\<rparr>"

definition doc_ABC :: Model where
  "doc_ABC = NewModel
     \<lparr>Nodes := [(''C'', node_at ''C'' 5 3), (''A'', node_at ''A'' 0 0), (''B'', node_at ''B'' 5 0)],
      Selected := ''A''\<rparr>"

text \<open>
  A document file whose root carries a stored size of 40 by 9, the library calls that
  read and decode it, and the model after loading it.
\<close>

definition stored_sizes_json :: string where
  \<open>stored_sizes_json = ''{"nodes":{"0":{"id":"0","text":"Root Idea","x":0,"y":0,"width":40,"height":9,"parent_id":"","color":"","links":[]}},"edges":[],"camera":{"x":0,"y":0,"zoom":1}}''\<close>

definition stored_sizes_data :: MindMapData where
  "stored_sizes_data =
     \<lparr>data_Nodes = [(''0'', (root_node [])\<lparr>Width := 40, Height := 9\<rparr>)],
      data_Edges = [],
      data_Camera = \<lparr>CamX = 0, CamY = 0, Zoom = 1, TargetX = 0, TargetY = 0, TargetZoom = 0\<rparr>\<rparr>"

definition example_ReadFile :: "string \<Rightarrow> error + string" where
  "example_ReadFile filename =
     (if filename = ''mindmap.json'' then Inr stored_sizes_json
      else Inl (''open '' @ filename @ '': no such file or directory''))"

definition example_Unmarshal :: "string \<Rightarrow> error + MindMapData" where
  "example_Unmarshal jsonData =
     (if jsonData = stored_sizes_json then Inr stored_sizes_data
      else Inl ''invalid character'')"

definition example_Sscanf_d :: "string \<Rightarrow> int option" where
  "example_Sscanf_d s = (if s = ''0'' then Some 0 else None)"

definition doc_stored_sizes :: Model where
  "doc_stored_sizes = NewModel\<lparr>Nodes := [(''0'', (root_node [])\<lparr>Width := 40, Height := 9\<rparr>)]\<rparr>"

text \<open>
  A parent of four rows with one child of three rows, the parent selected, and the
  document after \<^verbatim>\<open>AddChildNode("b")\<close> on it.
\<close>

definition tall_parent :: Node where
  "tall_parent =
     \<lparr>ID = ''1'', Text = two_line_text, X = 18, Y = 0, Width = 24, Height = 4,
      ParentID = ''0'', Color = ''#FF6B6B'', Links = [''2'']\<rparr>"

definition short_child :: Node where
  "short_child =
     \<lparr>ID = ''2'', Text = ''a'', X = 47, Y = 0, Width = 10, Height = 3,
      ParentID = ''1'', Color = ''#FF6B6B'', Links = []\<rparr>"

definition doc_tall_parent :: Model where
  "doc_tall_parent = NewModel
     \<lparr>Nodes := [(''0'', root_node [''1'']), (''1'', tall_parent), (''2'', short_child)],
      Edges := [\<lparr>FromID = ''0'', ToID = ''1''\<rparr>, \<lparr>FromID = ''1'', ToID = ''2''\<rparr>],
      Selected := ''1'', NextID := 3, StatusMsg := ''Created child node 2'',
      NextColorIndex := 1\<rparr>"

definition doc_tall_parent_after :: Model where
  "doc_tall_parent_after = doc_tall_parent
     \<lparr>Nodes := [(''0'', root_node [''1'']),
                (''1'', tall_parent\<lparr>Links := [''2'', ''3'']\<rparr>),
                (''2'', short_child),
                (''3'', \<lparr>ID = ''3'', Text = ''b'', X = 47, Y = 7, Width = 10, Height = 3,
                         ParentID = ''1'', Color = ''#FF6B6B'', Links = []\<rparr>)],
      Edges := [\<lparr>FromID = ''0'', ToID = ''1''\<rparr>, \<lparr>FromID = ''1'', ToID = ''2''\<rparr>,
                \<lparr>FromID = ''1'', ToID = ''3''\<rparr>],
      Selected := ''3'', NextID := 4, StatusMsg := ''Created child node 3''\<rparr>"

text \<open>
  Two children of the root, one below the other, the upper one selected, and the
  document after \<^verbatim>\<open>AddSiblingNode\<close> with the two-line text on it.
\<close>

definition first_sibling :: Node where
  "first_sibling =
     \<lparr>ID = ''1'', Text = ''a'', X = 18, Y = 0, Width = 10, Height = 3,
      ParentID = ''0'', Color = ''#FF6B6B'', Links = []\<rparr>"

definition second_sibling :: Node where
  "second_sibling =
     \<lparr>ID = ''2'', Text = ''b'', X = 18, Y = 6, Width = 10, Height = 3,
      ParentID = ''0'', Color = ''#4ECDC4'', Links = []\<rparr>"

definition doc_two_siblings :: Model where
  "doc_two_siblings = NewModel
     \<lparr>Nodes := [(''0'', root_node [''1'', ''2'']), (''1'', first_sibling), (''2'', second_sibling)],
      Edges := [\<lparr>FromID = ''0'', ToID = ''1''\<rparr>, \<lparr>FromID = ''0'', ToID = ''2''\<rparr>],
      Selected := ''1'', NextID := 3, StatusMsg := ''Created sibling node 2'',
      NextColorIndex := 2\<rparr>"

definition doc_two_siblings_after :: Model where
  "doc_two_siblings_after = doc_two_siblings
     \<lparr>Nodes := [(''0'', root_node [''1'', ''2'', ''3'']),
                (''1'', first_sibling),
                (''2'', second_sibling\<lparr>Y := 12\<rparr>),
                (''3'', \<lparr>ID = ''3'', Text = two_line_text, X = 18, Y = 6, Width = 24, Height = 4,
                         ParentID = ''0'', Color = ''#45B7D1'', Links = []\<rparr>)],
      Edges := [\<lparr>FromID = ''0'', ToID = ''1''\<rparr>, \<lparr>FromID = ''0'', ToID = ''2''\<rparr>,
                \<lparr>FromID = ''0'', ToID = ''3''\<rparr>],
      Selected := ''3'', NextID := 4, StatusMsg := ''Created sibling node 3'',
      NextColorIndex := 3\<rparr>"



section \<open>Properties\<close>

lemma doc_one_child_reached: "AddChildNode ''a'' NewModel = Inr doc_one_child"
  by code_simp

subsection \<open>Word wrap\<close>

text \<open>
  C4. The claim is that no line produced by \<^verbatim>\<open>wrapText\<close> at the budget of 22 exceeds
  22 characters, a longer word being cut into chunks. The code cuts a long word only
  when the current line is not empty: a word of 23 letters at the start of a paragraph
  comes back as one line of 23, while the same word after a shorter one is cut.
\<close>

theorem wrapText_long_first_word:
  "wrapText ''aaaaaaaaaaaaaaaaaaaaaaa'' maxTextWidth = [''aaaaaaaaaaaaaaaaaaaaaaa'']
   \<and> int (length ''aaaaaaaaaaaaaaaaaaaaaaa'') = 23
   \<and> maxTextWidth = 22
   \<and> wrapText ''x aaaaaaaaaaaaaaaaaaaaaaa'' maxTextWidth
       = [''x'', ''aaaaaaaaaaaaaaaaaaaaaa'', ''a'']"
  by code_simp

subsection \<open>Sibling of the root\<close>

text \<open>
  C6. With the root selected (the selection is \<open>''0''\<close> and the node stored under it
  carries the identity \<open>''0''\<close>), \<^verbatim>\<open>AddSiblingNode\<close> gives exactly the result of
  \<^verbatim>\<open>AddChildNode\<close> with the same text.
\<close>

theorem AddSiblingNode_root:
  assumes "Selected m = ''0''" and "map_of (Nodes m) ''0'' = Some r" and "ID r = ''0''"
  shows "AddSiblingNode text m = AddChildNode text m"
  using assms by (simp add: AddSiblingNode_def GetSelectedNode_def)

theorem AddSiblingNode_root_witness:
  "Selected NewModel = ''0''
   \<and> map_of (Nodes NewModel) ''0'' = Some (NewNode ''0'' ''Root Idea'' 0 0)
   \<and> ID (NewNode ''0'' ''Root Idea'' 0 0) = ''0''
   \<and> AddSiblingNode ''x'' NewModel = AddChildNode ''x'' NewModel"
  using AddSiblingNode_root [of NewModel "NewNode ''0'' ''Root Idea'' 0 0" "''x''"]
  by (simp add: NewModel_def NewNode_def split: prod.splits)

subsection \<open>Deleting a node\<close>

lemma DeleteNode_Nodes:
  "nid \<noteq> ''0'' \<Longrightarrow> Nodes (DeleteNode nid m) = AList.delete nid (Nodes m)"
  by (simp add: DeleteNode_def Let_def split: list.splits)

lemma DeleteNode_Edges:
  "nid \<noteq> ''0'' \<Longrightarrow>
     Edges (DeleteNode nid m) = filter (\<lambda>e. FromID e \<noteq> nid \<and> ToID e \<noteq> nid) (Edges m)"
  by (simp add: DeleteNode_def Let_def split: list.splits)

lemma DeleteNode_Selected:
  "nid \<noteq> ''0'' \<Longrightarrow>
     Selected (DeleteNode nid m) =
       (if Selected m = nid
        then (case AList.delete nid (Nodes m) of [] \<Rightarrow> [] | (k, n) # rest \<Rightarrow> k)
        else Selected m)"
  by (simp add: DeleteNode_def Let_def split: list.splits)

lemma DeleteNode_root: "DeleteNode ''0'' m = m\<lparr>StatusMsg := ''Cannot delete root node''\<rparr>"
  by (simp add: DeleteNode_def)

text \<open>
  C8 as stated, for every identity present in the document, fails at the root: the
  root is present, an edge leaves it, and \<^verbatim>\<open>DeleteNode("0")\<close> keeps that edge.
\<close>

theorem DeleteNode_root_counterexample:
  "map_of (Nodes doc_one_child) ''0'' \<noteq> None
   \<and> \<lparr>FromID = ''0'', ToID = ''1''\<rparr> \<in> set (Edges doc_one_child)
   \<and> \<lparr>FromID = ''0'', ToID = ''1''\<rparr> \<in> set (Edges (DeleteNode ''0'' doc_one_child))"
  by (simp add: doc_one_child_def DeleteNode_def)

text \<open>
  C8, amended. \<^verbatim>\<open>DeleteNode("0")\<close> removes nothing: nodes, edges and selection stay.
  For every other identity, \<^verbatim>\<open>DeleteNode\<close> removes the entry of that identity and leaves
  every other node as it was; the edges that remain are exactly those with neither end
  at the identity, in their order; the selection is kept when another node was
  selected, and otherwise it becomes the key of a remaining node when one remains and
  the empty string when none does.
\<close>

theorem DeleteNode_frame:
  "(nid = ''0'' \<longrightarrow>
       Nodes (DeleteNode nid m) = Nodes m \<and> Edges (DeleteNode nid m) = Edges m
       \<and> Selected (DeleteNode nid m) = Selected m)
   \<and> (nid \<noteq> ''0'' \<longrightarrow>
       map_of (Nodes (DeleteNode nid m)) = (map_of (Nodes m))(nid := None)
       \<and> Edges (DeleteNode nid m) = filter (\<lambda>e. FromID e \<noteq> nid \<and> ToID e \<noteq> nid) (Edges m)
       \<and> (Selected m \<noteq> nid \<longrightarrow> Selected (DeleteNode nid m) = Selected m)
       \<and> (Selected m = nid \<and> Nodes (DeleteNode nid m) \<noteq> [] \<longrightarrow>
            Selected (DeleteNode nid m) \<in> fst ` set (Nodes (DeleteNode nid m)))
       \<and> (Selected m = nid \<and> Nodes (DeleteNode nid m) = [] \<longrightarrow>
            Selected (DeleteNode nid m) = []))"
proof (cases "nid = ''0''")
  case True
  then show ?thesis by (simp add: DeleteNode_root)
next
  case False
  have sel: "Selected m = nid \<Longrightarrow> AList.delete nid (Nodes m) \<noteq> [] \<Longrightarrow>
      Selected (DeleteNode nid m) \<in> fst ` set (AList.delete nid (Nodes m))"
    using False by (cases "AList.delete nid (Nodes m)") (auto simp add: DeleteNode_Selected)
  from False sel show ?thesis
    by (simp add: DeleteNode_Nodes DeleteNode_Edges DeleteNode_Selected AList.delete_conv')
qed

theorem DeleteNode_frame_witness:
  "''1'' \<noteq> ''0''
   \<and> map_of (Nodes (DeleteNode ''1'' doc_one_child)) ''0'' = Some (root_node [''1''])
   \<and> map_of (Nodes (DeleteNode ''1'' doc_one_child)) ''1'' = None
   \<and> Edges (DeleteNode ''1'' doc_one_child) = []
   \<and> Selected doc_one_child = ''1''
   \<and> Selected (DeleteNode ''1'' doc_one_child) = ''0''"
  using DeleteNode_frame [of "''1''" doc_one_child]
  by (simp add: doc_one_child_def DeleteNode_def Let_def AList.delete_eq)

subsection \<open>Loading\<close>

text \<open>
  C1 as stated fails: after a successful load the root of the example file has the
  stored width 40 and height 9, while \<^verbatim>\<open>calculateNodeSize\<close> of its text gives 13 and 3.
\<close>

theorem LoadFromFile_stored_size_counterexample:
  "LoadFromFile example_ReadFile example_Unmarshal example_Sscanf_d ''mindmap.json'' NewModel
     = Inr doc_stored_sizes
   \<and> map_of (Nodes doc_stored_sizes) ''0'' = Some ((root_node [])\<lparr>Width := 40, Height := 9\<rparr>)
   \<and> Text ((root_node [])\<lparr>Width := 40, Height := 9\<rparr>) = ''Root Idea''
   \<and> Width ((root_node [])\<lparr>Width := 40, Height := 9\<rparr>) = 40
   \<and> Height ((root_node [])\<lparr>Width := 40, Height := 9\<rparr>) = 9
   \<and> calculateNodeSize ''Root Idea'' = (13, 3)"
  by code_simp

text \<open>
  C1, amended. When \<^verbatim>\<open>LoadFromFile\<close> succeeds, the file was read and decoded, and the
  node map of the model is the decoded one as it is: every node has the width and
  height stored in the file.
\<close>

theorem LoadFromFile_nodes_as_decoded:
  assumes "LoadFromFile ReadFile Unmarshal Sscanf_d filename m = Inr m'"
  shows "\<exists>jsonData data. ReadFile filename = Inr jsonData \<and> Unmarshal jsonData = Inr data
           \<and> Nodes m' = data_Nodes data"
  using assms
  by (auto simp add: LoadFromFile_def Let_def split: sum.splits list.splits if_splits)

theorem LoadFromFile_nodes_as_decoded_witness:
  "LoadFromFile example_ReadFile example_Unmarshal example_Sscanf_d ''mindmap.json'' NewModel
     = Inr doc_stored_sizes
   \<and> (\<exists>jsonData data. example_ReadFile ''mindmap.json'' = Inr jsonData
         \<and> example_Unmarshal jsonData = Inr data \<and> Nodes doc_stored_sizes = data_Nodes data)"
proof -
  have h: "LoadFromFile example_ReadFile example_Unmarshal example_Sscanf_d ''mindmap.json'' NewModel
     = Inr doc_stored_sizes"
    by code_simp
  from h LoadFromFile_nodes_as_decoded [OF h] show ?thesis by simp
qed

subsection \<open>Directional selection\<close>








lemma doc_ABC_right: "Selected (selectNodeInDirection 1 0 doc_ABC) = ''B''"
  by code_simp



subsection \<open>Placement\<close>

text \<open>Both example documents arise from a new model by creations and a selection.\<close>

lemma doc_tall_parent_reached:
  "run [CreateChild two_line_text, CreateChild ''a'', Select ''1''] NewModel = Inr doc_tall_parent"
  by code_simp

lemma doc_two_siblings_reached:
  "run [CreateChild ''a'', CreateSibling ''b'', Select ''1''] NewModel = Inr doc_two_siblings"
  by code_simp

text \<open>
  C2. The claim puts a further child 3.0 below the lowest existing child. The code
  starts its search for the lowest bottom from the parent's own box, so under a parent
  that reaches lower than all its children the new child lands 3.0 below the parent:
  here the only child ends at 3, the parent at 4, and the new child is put at 7, not 6.
\<close>

theorem AddChildNode_below_taller_parent:
  "GetSelectedNode doc_tall_parent = Some tall_parent
   \<and> GetChildrenOf doc_tall_parent (ID tall_parent) = [short_child]
   \<and> Y short_child + real_of_int (Height short_child) + 3.0 = 6
   \<and> Y tall_parent + real_of_int (Height tall_parent) + 3.0 = 7
   \<and> AddChildNode ''b'' doc_tall_parent = Inr doc_tall_parent_after
   \<and> map_option Y (createdNode doc_tall_parent doc_tall_parent_after) = Some 7"
  by code_simp

text \<open>
  C3. The claim moves the nodes at or below the insertion point down by the height of
  the new node plus 3.0. The code moves them by the constant 3 + 3.0: here the new node
  is 4 rows high and is put at 6, and the node that was at 6 goes to 12, not to 13.
\<close>

theorem AddSiblingNode_pushes_by_six:
  "GetSelectedNode doc_two_siblings = Some first_sibling
   \<and> Y first_sibling + real_of_int (Height first_sibling) + 3.0 = 6
   \<and> map_option Y (map_of (Nodes doc_two_siblings) ''2'') = Some 6
   \<and> AddSiblingNode two_line_text doc_two_siblings = Inr doc_two_siblings_after
   \<and> map_option Y (createdNode doc_two_siblings doc_two_siblings_after) = Some 6
   \<and> map_option Height (createdNode doc_two_siblings doc_two_siblings_after) = Some 4
   \<and> map_option Y (map_of (Nodes doc_two_siblings_after) ''2'') = Some 12"
  by code_simp


subsection \<open>Edge rasterisation\<close>



















end
